theory Spec2Isabelle
  imports Complex_Main
begin

section \<open>The connectivity-analysis notebook\<close>

text \<open>
  The program is the notebook \<^verbatim>\<open>plot_cobre_connectivity_analysis.ipynb\<close>. Its code
  cells sequence calls into nilearn, scikit-learn and numpy. Those libraries are not part
  of the repository, so every library call is a parameter of the model: a field of the
  record \<open>library\<close> below. What is translated from the source is what the notebook itself
  does: which objects it constructs and with which arguments, which calls it makes, in
  which order, on which data, and how it collects the results.

  A library call may raise and may read or change state that the notebook does not hold
  (the process-wide random generator, the on-disk cache). Such a call is a function from
  the ambient state \<open>'w\<close> to a result, \<open>Inl\<close> an exception of type \<open>'e\<close> or \<open>Inr\<close> a value,
  and the ambient state after the call.
\<close>

type_synonym ('w, 'e, 'a) call = "'w \<Rightarrow> ('e + 'a) \<times> 'w"

text \<open>Sequencing: an exception raised by the first call ends the run of the cell.\<close>

definition bind_call :: "('w, 'e, 'a) call \<Rightarrow> ('a \<Rightarrow> ('w, 'e, 'b) call) \<Rightarrow> ('w, 'e, 'b) call" where
  "bind_call m f w = (case m w of (Inl e, w') \<Rightarrow> (Inl e, w') | (Inr a, w') \<Rightarrow> f a w')"

definition return_call :: "'a \<Rightarrow> ('w, 'e, 'a) call" where
  "return_call a w = (Inr a, w)"

subsection \<open>The objects the notebook constructs\<close>

text \<open>
  \<^verbatim>\<open>LedoitWolf(assume_centered=True)\<close>,
  \<^verbatim>\<open>ConnectivityMeasure(kind=..., cov_estimator=...)\<close>,
  \<^verbatim>\<open>StratifiedShuffleSplit(n_splits=n_iter, test_size=0.25, random_state=0)\<close> and
  \<^verbatim>\<open>LinearSVC(penalty='l2', random_state=0)\<close>: each object is the record of its
  constructor arguments. A \<open>random_state\<close> that is not given is \<open>None\<close>.
\<close>

record LedoitWolf =
  assume_centered :: bool

record ConnectivityMeasure =
  kind :: string
  cov_estimator :: LedoitWolf

record StratifiedShuffleSplit =
  n_splits :: nat
  test_size :: real
  random_state :: "int option"

record LinearSVC =
  penalty :: string
  svc_random_state :: "int option"

text \<open>A split is the pair \<^verbatim>\<open>(train_index, test_index)\<close> of index arrays.\<close>

type_synonym split = "nat list \<times> nat list"

subsection \<open>The library calls the notebook makes\<close>

text \<open>
  \<^item> \<open>fit_transform c ts\<close> is \<^verbatim>\<open>c.fit_transform(ts)\<close> of a \<open>ConnectivityMeasure\<close>:
    from the subjects' timeseries (2D arrays) to one matrix per subject;
  \<^item> \<open>sym_to_vec ms\<close> is \<^verbatim>\<open>sym_to_vec(ms)\<close>, from the stack of matrices to one
    coefficient vector per subject;
  \<^item> \<open>cv_split c X y\<close> is \<^verbatim>\<open>c.split(X, y)\<close> of a \<open>StratifiedShuffleSplit\<close>. The
    generator it returns is consumed whole by the notebook's loop and is modelled as the
    list of the splits it yields;
  \<^item> \<open>cross_val_score est X y scoring cvs\<close> is
    \<^verbatim>\<open>cross_val_score(estimator=est, X=X, y=y, scoring=scoring, cv=cvs)\<close>, returning
    the array of scores, one per element of \<open>cvs\<close>;
  \<^item> \<open>mean a\<close> and \<open>std a\<close> are \<^verbatim>\<open>a.mean()\<close> and \<^verbatim>\<open>a.std()\<close> of the numpy
    array \<^verbatim>\<open>a = np.asarray(scores)\<close>: numpy's reductions over all elements of the
    array, in numpy's own floating-point arithmetic. They draw on no ambient state; the
    result is \<open>None\<close> where numpy gives \<^verbatim>\<open>nan\<close>.
\<close>

record ('w, 'e) library =
  fit_transform :: "ConnectivityMeasure \<Rightarrow> real list list list \<Rightarrow> ('w, 'e, real list list list) call"
  sym_to_vec :: "real list list list \<Rightarrow> ('w, 'e, real list list) call"
  cv_split :: "StratifiedShuffleSplit \<Rightarrow> string list \<Rightarrow> nat list \<Rightarrow> ('w, 'e, split list) call"
  cross_val_score :: "LinearSVC \<Rightarrow> real list list \<Rightarrow> nat list \<Rightarrow> string \<Rightarrow> split list \<Rightarrow> ('w, 'e, real list) call"
  mean :: "real list list \<Rightarrow> real option"
  std :: "real list list \<Rightarrow> real option"

subsection \<open>Cross validator and classifier\<close>

text \<open>
  \<^verbatim>\<open>
  n_iter = 100  # Number of splits
  cv = StratifiedShuffleSplit(n_splits=n_iter, test_size=0.25, random_state=0)
  svc = LinearSVC(penalty='l2', random_state=0)
  \<close>
  The number of splits is an argument of \<open>cv\<close>, so that a property can be stated for
  every split count; the notebook's cross validator is \<open>cv n_iter\<close>.
\<close>

definition n_iter :: nat where
  "n_iter = 100"

definition cv :: "nat \<Rightarrow> StratifiedShuffleSplit" where
  "cv n = \<lparr>n_splits = n, test_size = 0.25, random_state = Some 0\<rparr>"

definition svc :: LinearSVC where
  "svc = \<lparr>penalty = ''l2'', svc_random_state = Some 0\<rparr>"

subsection \<open>The prediction loop\<close>

text \<open>
  \<^verbatim>\<open>
  scores = []
  for index, (train_index, test_index) in enumerate(iter_for_prediction):
      prediction_scores = cross_val_score(
          estimator=svc, X=connectivity_coefs, y=classes_binary,
          scoring='roc_auc', cv=[(train_index, test_index)])
      scores.append(prediction_scores)
  \<close>
  One call of \<open>cross_val_score\<close> per split, each with the one-element list of that
  split; the array it returns is appended to \<open>scores\<close>. An exception leaves the loop.
\<close>

fun prediction_loop ::
  "('w, 'e) library \<Rightarrow> LinearSVC \<Rightarrow> real list list \<Rightarrow> nat list \<Rightarrow> split list \<Rightarrow> real list list
    \<Rightarrow> ('w, 'e, real list list) call" where
  "prediction_loop L est X y [] scores w = (Inr scores, w)"
| "prediction_loop L est X y ((train_index, test_index) # rest) scores w =
     (case cross_val_score L est X y ''roc_auc'' [(train_index, test_index)] w of
        (Inl e, w') \<Rightarrow> (Inl e, w')
      | (Inr prediction_scores, w') \<Rightarrow>
          prediction_loop L est X y rest (scores @ [prediction_scores]) w')"

text \<open>What one prediction cell leaves behind: the splits it iterated over, the scores it
  gathered and the two numbers it prints.\<close>

record prediction =
  iter_for_prediction :: "split list"
  scores :: "real list list"
  scores_mean :: "real option"
  scores_std :: "real option"

text \<open>
  The cell ``Now, we predict using SVC'', from \<^verbatim>\<open>cv.split(func_imgs, classes_binary)\<close>
  to the printed summary (\<^verbatim>\<open>scores = np.asarray(scores)\<close>, then \<^verbatim>\<open>scores.mean()\<close>
  and \<^verbatim>\<open>scores.std()\<close>), for the cross validator of \<open>n\<close> splits, the coefficient
  vectors \<open>X\<close> and the labels \<open>y\<close>.
\<close>

definition cross_validated_classifier ::
  "('w, 'e) library \<Rightarrow> nat \<Rightarrow> string list \<Rightarrow> real list list \<Rightarrow> nat list \<Rightarrow> ('w, 'e, prediction) call" where
  "cross_validated_classifier L n func_imgs X y =
     bind_call (cv_split L (cv n) func_imgs y) (\<lambda>splits.
     bind_call (prediction_loop L svc X y splits []) (\<lambda>gathered.
     return_call \<lparr>iter_for_prediction = splits, scores = gathered,
                  scores_mean = mean L gathered, scores_std = std L gathered\<rparr>))"

subsection \<open>The two experiments of one run\<close>

text \<open>
  From ``Step 3: Connectomes estimation'' to the end of the notebook, the plotting cells
  left out: connectivity matrices with \<^verbatim>\<open>kind='correlation'\<close>, their vectors, the
  prediction; then the same with \<^verbatim>\<open>kind='tangent'\<close>, on the same \<open>cv\<close> and \<open>svc\<close>, the
  same \<^verbatim>\<open>func_imgs\<close> and \<^verbatim>\<open>classes_binary\<close>.
\<close>

definition connectivity_coefs_of ::
  "('w, 'e) library \<Rightarrow> string \<Rightarrow> real list list list \<Rightarrow> ('w, 'e, real list list) call" where
  "connectivity_coefs_of L measure_kind subjects_timeseries_with_confounds =
     bind_call (fit_transform L \<lparr>kind = measure_kind, cov_estimator = \<lparr>assume_centered = True\<rparr>\<rparr>
                  subjects_timeseries_with_confounds) (\<lambda>connectivity_matrices.
     sym_to_vec L connectivity_matrices)"

record analysis_result =
  connectivity_coefs :: "real list list"
  correlation :: prediction
  connectivity_coefs2 :: "real list list"
  tangent :: prediction

definition analysis ::
  "('w, 'e) library \<Rightarrow> nat \<Rightarrow> string list \<Rightarrow> real list list list \<Rightarrow> nat list
    \<Rightarrow> ('w, 'e, analysis_result) call" where
  "analysis L n func_imgs subjects_timeseries_with_confounds classes_binary =
     bind_call (connectivity_coefs_of L ''correlation'' subjects_timeseries_with_confounds) (\<lambda>coefs.
     bind_call (cross_validated_classifier L n func_imgs coefs classes_binary) (\<lambda>first.
     bind_call (connectivity_coefs_of L ''tangent'' subjects_timeseries_with_confounds) (\<lambda>coefs2.
     bind_call (cross_validated_classifier L n func_imgs coefs2 classes_binary) (\<lambda>second.
     return_call \<lparr>connectivity_coefs = coefs, correlation = first,
                  connectivity_coefs2 = coefs2, tangent = second\<rparr>))))"

subsection \<open>Contracts of the library calls\<close>

text \<open>
  The notebook gives both the cross validator and the classifier an integer
  \<^verbatim>\<open>random_state\<close>. What the libraries promise for a seeded object is that the call
  draws from a generator of its own, made from the seed: its result does not depend on
  the ambient state. The two predicates say so for the two seeded calls of the notebook;
  they say nothing of an object built without a seed.
\<close>

definition seeded_split_reproducible :: "('w, 'e) library \<Rightarrow> bool" where
  "seeded_split_reproducible L \<longleftrightarrow>
     (\<forall>c X y w w'. random_state c \<noteq> None \<longrightarrow>
        fst (cv_split L c X y w) = fst (cv_split L c X y w'))"

definition seeded_score_reproducible :: "('w, 'e) library \<Rightarrow> bool" where
  "seeded_score_reproducible L \<longleftrightarrow>
     (\<forall>est X y scoring cvs w w'. svc_random_state est \<noteq> None \<longrightarrow>
        fst (cross_val_score L est X y scoring cvs w) =
        fst (cross_val_score L est X y scoring cvs w'))"

subsection \<open>A small instance of the library\<close>

text \<open>
  An instance on which the notebook can be run by evaluation. Its ambient state is a
  counter. A seeded cross validator holds out the last two subjects in every split; an
  unseeded one reads the counter and advances it. The matrices depend on the measure kind
  and the score on the coefficient vectors; scoring advances the counter as well.
  Its reductions are the mean and the standard deviation of the elements over the reals.
\<close>

definition stub_library :: "(nat, string) library" where
  "stub_library = \<lparr>
     fit_transform = (\<lambda>c ts w. (Inr (map (\<lambda>t. if kind c = ''tangent'' then [[0, 1], [1, 0]]
                                                else [[1, 0], [0, 1]]) ts), w)),
     sym_to_vec = (\<lambda>ms w. (Inr (map concat ms), w)),
     cv_split = (\<lambda>c X y w. case random_state c of
                    Some s \<Rightarrow> (Inr (replicate (n_splits c)
                                ([0 ..< length y - 2], [length y - 2, length y - 1])), w)
                  | None \<Rightarrow> (Inr (replicate (n_splits c) ([w], [Suc w])), Suc w)),
     cross_val_score = (\<lambda>est X y scoring cvs w.
                          (Inr (map (\<lambda>s. if take 1 (concat X) = [1] then 1 / 2 else 3 / 4) cvs), Suc w)),
     mean = (\<lambda>a. if concat a = [] then None
                 else Some (sum_list (concat a) / real (length (concat a)))),
     std = (\<lambda>a. if concat a = [] then None
                else Some (sqrt (sum_list (map (\<lambda>x. (x - sum_list (concat a) / real (length (concat a)))\<^sup>2)
                                           (concat a)) / real (length (concat a))))) \<rparr>"

section \<open>Properties\<close>

subsection \<open>Sequencing\<close>

lemma bind_call_Inl: "m w = (Inl e, w') \<Longrightarrow> bind_call m f w = (Inl e, w')"
  by (simp add: bind_call_def)

lemma bind_call_Inr: "m w = (Inr a, w') \<Longrightarrow> bind_call m f w = f a w'"
  by (simp add: bind_call_def)

subsection \<open>The instance meets the contracts\<close>

lemma stub_split_reproducible: "seeded_split_reproducible stub_library"
  by (auto simp: seeded_split_reproducible_def stub_library_def)

lemma stub_score_reproducible: "seeded_score_reproducible stub_library"
  by (simp add: seeded_score_reproducible_def stub_library_def)

text \<open>Without a seed the instance's splits do follow the ambient state: the contract of
  the seeded call is not one that every call meets.\<close>

lemma stub_unseeded_split_varies:
  "fst (cv_split stub_library ((cv 2)\<lparr>random_state := None\<rparr>) [''a'', ''b'', ''c'', ''d'', ''e'', ''f'', ''g'', ''h''] [0, 1, 0, 1, 0, 1, 0, 1] 0) \<noteq>
   fst (cv_split stub_library ((cv 2)\<lparr>random_state := None\<rparr>) [''a'', ''b'', ''c'', ''d'', ''e'', ''f'', ''g'', ''h''] [0, 1, 0, 1, 0, 1, 0, 1] 5)"
  by (simp add: stub_library_def cv_def numeral_2_eq_2)

lemma stub_classifier_value:
  "fst (cross_validated_classifier stub_library 2 [''a'', ''b'', ''c'', ''d'', ''e'', ''f'', ''g'', ''h''] [[1], [2], [3], [4], [5], [6], [7], [8]] [0, 1, 0, 1, 0, 1, 0, 1] 0) =
   Inr \<lparr>iter_for_prediction = [([0, 1, 2, 3, 4, 5], [6, 7]), ([0, 1, 2, 3, 4, 5], [6, 7])], scores = [[1 / 2], [1 / 2]],
        scores_mean = Some (1 / 2), scores_std = Some 0\<rparr>"
  by (simp add: cross_validated_classifier_def bind_call_def return_call_def stub_library_def
      cv_def svc_def numeral_2_eq_2 upt_rec)

lemma stub_analysis_returns:
  "\<exists>r w'. analysis stub_library 2 [''a'', ''b'', ''c'', ''d'', ''e'', ''f'', ''g'', ''h'']
            [[[1, 2], [3, 4]], [[5, 6], [7, 8]], [[1, 0], [0, 1]], [[2, 2], [2, 2]],
             [[4, 3], [2, 1]], [[8, 7], [6, 5]], [[0, 1], [1, 0]], [[3, 3], [3, 3]]]
            [0, 1, 0, 1, 0, 1, 0, 1] 0 = (Inr r, w') \<and>
          scores (correlation r) = [[1 / 2], [1 / 2]] \<and> scores (tangent r) = [[3 / 4], [3 / 4]]"
  by (simp add: analysis_def connectivity_coefs_of_def cross_validated_classifier_def bind_call_def
      return_call_def stub_library_def cv_def svc_def numeral_2_eq_2)

subsection \<open>The prediction does not depend on the ambient state\<close>

text \<open>The loop, for a seeded classifier: started in two ambient states it gathers the
  same scores, or leaves with the same exception.\<close>

lemma prediction_loop_ambient:
  assumes "seeded_score_reproducible L" "svc_random_state est \<noteq> None"
  shows "fst (prediction_loop L est X y splits acc w1) = fst (prediction_loop L est X y splits acc w2)"
proof (induction splits arbitrary: acc w1 w2)
  case Nil
  show ?case by simp
next
  case (Cons s rest)
  obtain tr te where s: "s = (tr, te)" by (cases s)
  obtain r1 v1 where c1: "cross_val_score L est X y ''roc_auc'' [(tr, te)] w1 = (r1, v1)"
    by (cases "cross_val_score L est X y ''roc_auc'' [(tr, te)] w1")
  obtain r2 v2 where c2: "cross_val_score L est X y ''roc_auc'' [(tr, te)] w2 = (r2, v2)"
    by (cases "cross_val_score L est X y ''roc_auc'' [(tr, te)] w2")
  from assms c1 c2 have eq: "r2 = r1"
    unfolding seeded_score_reproducible_def by (metis fst_conv)
  show ?case
  proof (cases r1)
    case (Inl e)
    with s c1 c2 eq show ?thesis by simp
  next
    case (Inr ps)
    with s c1 c2 eq Cons.IH [of "acc @ [ps]" v1 v2] show ?thesis by simp
  qed
qed

lemma classifier_ambient:
  assumes "seeded_split_reproducible L" and "seeded_score_reproducible L"
  shows "fst (cross_validated_classifier L n func_imgs X y w1) =
         fst (cross_validated_classifier L n func_imgs X y w2)"
proof -
  obtain r1 v1 where c1: "cv_split L (cv n) func_imgs y w1 = (r1, v1)"
    by (cases "cv_split L (cv n) func_imgs y w1")
  obtain r2 v2 where c2: "cv_split L (cv n) func_imgs y w2 = (r2, v2)"
    by (cases "cv_split L (cv n) func_imgs y w2")
  have "random_state (cv n) \<noteq> None" by (simp add: cv_def)
  with assms(1) c1 c2 have eq: "r2 = r1"
    unfolding seeded_split_reproducible_def by (metis fst_conv)
  show ?thesis
  proof (cases r1)
    case (Inl e)
    with c1 c2 eq show ?thesis
      by (simp add: cross_validated_classifier_def bind_call_Inl)
  next
    case (Inr splits)
    have seeded: "svc_random_state svc \<noteq> None" by (simp add: svc_def)
    obtain g1 u1 where l1: "prediction_loop L svc X y splits [] v1 = (g1, u1)"
      by (cases "prediction_loop L svc X y splits [] v1")
    obtain g2 u2 where l2: "prediction_loop L svc X y splits [] v2 = (g2, u2)"
      by (cases "prediction_loop L svc X y splits [] v2")
    from prediction_loop_ambient [OF assms(2) seeded, of X y splits "[]" v1 v2] l1 l2
    have g: "g2 = g1" by simp
    show ?thesis
    proof (cases g1)
      case (Inl e)
      with c1 c2 eq Inr l1 l2 g show ?thesis
        by (simp add: cross_validated_classifier_def bind_call_Inr bind_call_Inl)
    next
      case (Inr gathered)
      with c1 c2 eq \<open>r1 = Inr splits\<close> l1 l2 g show ?thesis
        by (simp add: cross_validated_classifier_def bind_call_Inr return_call_def)
    qed
  qed
qed

text \<open>
  Claim C1. For every feature matrix \<open>X\<close>, label vector \<open>y\<close> and split count \<open>n\<close>, two
  independent runs of the cross-validated classifier (two runs started in any two ambient
  states \<open>w1\<close> and \<open>w2\<close>) give the same result: the same sequence of splits and the same
  sequence of scores with the same summary, or the same exception. The seed is the one
  the notebook fixes, \<^verbatim>\<open>random_state=0\<close> in \<open>cv\<close> and in \<open>svc\<close>; the libraries enter
  through their contract for seeded calls.
\<close>

theorem cross_validation_deterministic:
  assumes "seeded_split_reproducible L" and "seeded_score_reproducible L"
  shows "fst (cross_validated_classifier L n func_imgs X y w1) =
         fst (cross_validated_classifier L n func_imgs X y w2)"
  using assms by (rule classifier_ambient)

theorem cross_validation_deterministic_witness:
  "fst (cross_validated_classifier stub_library 2 [''a'', ''b'', ''c'', ''d'', ''e'', ''f'', ''g'', ''h''] [[1], [2], [3], [4], [5], [6], [7], [8]] [0, 1, 0, 1, 0, 1, 0, 1] 5) =
   fst (cross_validated_classifier stub_library 2 [''a'', ''b'', ''c'', ''d'', ''e'', ''f'', ''g'', ''h''] [[1], [2], [3], [4], [5], [6], [7], [8]] [0, 1, 0, 1, 0, 1, 0, 1] 0) \<and>
   fst (cross_validated_classifier stub_library 2 [''a'', ''b'', ''c'', ''d'', ''e'', ''f'', ''g'', ''h''] [[1], [2], [3], [4], [5], [6], [7], [8]] [0, 1, 0, 1, 0, 1, 0, 1] 0) =
   Inr \<lparr>iter_for_prediction = [([0, 1, 2, 3, 4, 5], [6, 7]), ([0, 1, 2, 3, 4, 5], [6, 7])], scores = [[1 / 2], [1 / 2]],
        scores_mean = Some (1 / 2), scores_std = Some 0\<rparr>"
  using cross_validation_deterministic [OF stub_split_reproducible stub_score_reproducible,
      of 2 "[''a'', ''b'', ''c'', ''d'', ''e'', ''f'', ''g'', ''h'']" "[[1], [2], [3], [4], [5], [6], [7], [8]]" "[0, 1, 0, 1, 0, 1, 0, 1]" 5 0]
    stub_classifier_value
  by simp

subsection \<open>Both experiments iterate over the same splits\<close>

text \<open>
  Claim C10. In a run of the notebook the prediction with the correlation measure and
  the prediction with the tangent measure iterate over the same sequence of splits: both
  call \<^verbatim>\<open>cv.split(func_imgs, classes_binary)\<close> on the one seeded cross validator, with
  the same subject list and label vector, whatever the library calls in between did to
  the ambient state. Hence the measure kind alone separates the two score sequences: were
  the two sets of coefficient vectors equal, so would be the scores.
\<close>

theorem experiments_share_splits:
  assumes "seeded_split_reproducible L" and "seeded_score_reproducible L"
      and "analysis L n func_imgs subjects_timeseries_with_confounds classes_binary w = (Inr r, w')"
  shows "iter_for_prediction (tangent r) = iter_for_prediction (correlation r) \<and>
         (connectivity_coefs2 r = connectivity_coefs r \<longrightarrow> scores (tangent r) = scores (correlation r))"
proof -
  let ?ts = subjects_timeseries_with_confounds and ?y = classes_binary
  from assms(3) obtain coefs v1 where
    a1: "connectivity_coefs_of L ''correlation'' ?ts w = (Inr coefs, v1)"
    by (cases "connectivity_coefs_of L ''correlation'' ?ts w")
       (auto simp: analysis_def bind_call_def split: sum.splits)
  from assms(3) a1 obtain first v2 where
    a2: "cross_validated_classifier L n func_imgs coefs ?y v1 = (Inr first, v2)"
    by (cases "cross_validated_classifier L n func_imgs coefs ?y v1")
       (auto simp: analysis_def bind_call_def split: sum.splits)
  from assms(3) a1 a2 obtain coefs2 v3 where
    a3: "connectivity_coefs_of L ''tangent'' ?ts v2 = (Inr coefs2, v3)"
    by (cases "connectivity_coefs_of L ''tangent'' ?ts v2")
       (auto simp: analysis_def bind_call_def split: sum.splits)
  from assms(3) a1 a2 a3 obtain second v4 where
    a4: "cross_validated_classifier L n func_imgs coefs2 ?y v3 = (Inr second, v4)"
    by (cases "cross_validated_classifier L n func_imgs coefs2 ?y v3")
       (auto simp: analysis_def bind_call_def split: sum.splits)
  from assms(3) a1 a2 a3 a4 have
    r: "r = \<lparr>connectivity_coefs = coefs, correlation = first,
              connectivity_coefs2 = coefs2, tangent = second\<rparr>"
    by (simp add: analysis_def bind_call_Inr return_call_def)
  have same_X: "coefs2 = coefs \<Longrightarrow> second = first"
    using classifier_ambient [OF assms(1,2), of n func_imgs coefs ?y v1 v3] a2 a4 by simp
  obtain s1 u1 where b1: "cv_split L (cv n) func_imgs ?y v1 = (Inr s1, u1)"
    and i1: "iter_for_prediction first = s1"
    using a2 by (cases "cv_split L (cv n) func_imgs ?y v1")
      (auto simp: cross_validated_classifier_def bind_call_def return_call_def
            split: sum.splits prod.splits)
  obtain s2 u2 where b2: "cv_split L (cv n) func_imgs ?y v3 = (Inr s2, u2)"
    and i2: "iter_for_prediction second = s2"
    using a4 by (cases "cv_split L (cv n) func_imgs ?y v3")
      (auto simp: cross_validated_classifier_def bind_call_def return_call_def
            split: sum.splits prod.splits)
  have "random_state (cv n) \<noteq> None" by (simp add: cv_def)
  with assms(1) b1 b2 have "s2 = s1"
    unfolding seeded_split_reproducible_def by (metis fst_conv sum.inject(2))
  with i1 i2 r same_X show ?thesis by auto
qed

theorem experiments_share_splits_witness:
  "\<exists>r w'. analysis stub_library 2 [''a'', ''b'', ''c'', ''d'', ''e'', ''f'', ''g'', ''h'']
            [[[1, 2], [3, 4]], [[5, 6], [7, 8]], [[1, 0], [0, 1]], [[2, 2], [2, 2]],
             [[4, 3], [2, 1]], [[8, 7], [6, 5]], [[0, 1], [1, 0]], [[3, 3], [3, 3]]]
            [0, 1, 0, 1, 0, 1, 0, 1] 0 = (Inr r, w') \<and>
          scores (correlation r) = [[1 / 2], [1 / 2]] \<and> scores (tangent r) = [[3 / 4], [3 / 4]] \<and>
          iter_for_prediction (tangent r) = iter_for_prediction (correlation r)"
  using stub_analysis_returns
    experiments_share_splits [OF stub_split_reproducible stub_score_reproducible]
  by blast

end
